theory Spec2Isabelle
  imports Main "HOL-Library.Word"
begin

section \<open>Peer records (peer/record.go)\<close>

text \<open>
  A shallow embedding of \<^verbatim>\<open>peer/record.go\<close>: the type \<^verbatim>\<open>PeerRecord\<close>, its methods
  \<^verbatim>\<open>UnmarshalRecord\<close>, \<^verbatim>\<open>MarshalRecord\<close>, \<^verbatim>\<open>Sign\<close>, \<^verbatim>\<open>MarshalSigned\<close> and \<^verbatim>\<open>Equal\<close>, the helpers
  \<^verbatim>\<open>addrsFromProtobuf\<close> and \<^verbatim>\<open>addrsToProtobuf\<close>, and the package's \<^verbatim>\<open>init\<close>.

  Every method of the file has a pointer receiver. A pointer is modelled as an
  \<open>option\<close>: \<open>None\<close> is Go's \<^verbatim>\<open>nil\<close>, \<open>Some r\<close> points to a record with value \<open>r\<close>. A
  method takes the receiver and returns the receiver as the call leaves it, paired with
  what the Go method returns. Go's \<^verbatim>\<open>(value, error)\<close> results are sums (\<open>Inl\<close> the
  error); a lone \<^verbatim>\<open>error\<close> result is an \<open>error option\<close> (\<open>None\<close> is a \<^verbatim>\<open>nil\<close> error).
\<close>

subsection \<open>Data\<close>

type_synonym byte = "8 word"
type_synonym bytes = "byte list"

text \<open>
  The errors the file can hand to its caller. \<open>NilReceiver\<close> is the value of
  \<^verbatim>\<open>fmt.Errorf("cannot unmarshal PeerRecord to nil receiver")\<close>, \<open>ErrPeerIdMismatch\<close> the
  package variable of that name. \<open>CalleeError\<close> stands for an error value made by a
  function outside the file (its message is the argument). \<open>NilDereference\<close> is not an
  error value but Go's run-time panic on reading a field through a \<^verbatim>\<open>nil\<close> pointer.
\<close>

datatype error =
    NilReceiver
  | ErrPeerIdMismatch
  | CalleeError string
  | NilDereference

text \<open>
  \<^verbatim>\<open>type PeerRecord struct { PeerID ID; Addrs []ma.Multiaddr; Seq uint64 }\<close>.
  The types \<^verbatim>\<open>ID\<close> (declared elsewhere in package peer) and \<^verbatim>\<open>ma.Multiaddr\<close> (package
  go-multiaddr) are not declared in this file; they are the type parameters \<open>'id\<close> and
  \<open>'addr\<close>. \<^verbatim>\<open>ma.Multiaddr\<close> is an interface type; the elements of \<open>Addrs\<close> are taken to
  be present (non-nil) address values.
\<close>

record ('id, 'addr) PeerRecord =
  PeerID :: 'id
  Addrs :: "'addr list"
  Seq :: "64 word"

text \<open>
  The wire message \<^verbatim>\<open>pb.PeerRecord\<close> and its nested \<^verbatim>\<open>pb.PeerRecord_AddressInfo\<close>, with
  the fields the file reads and writes: \<^verbatim>\<open>PeerId\<close>, \<^verbatim>\<open>Addresses\<close>, \<^verbatim>\<open>Seq\<close> and \<^verbatim>\<open>Multiaddr\<close>.
\<close>

record pb_AddressInfo =
  pb_Multiaddr :: bytes

record pb_PeerRecord =
  pb_PeerId :: bytes
  pb_Addresses :: "pb_AddressInfo list"
  pb_Seq :: "64 word"

subsection \<open>The functions the file calls and does not define\<close>

text \<open>
  The file calls into the protobuf codec, the peer identity codec, the multiaddr library
  and the envelope layer. None of them is defined in the file; each is a field of the
  record \<open>externals\<close>, which every function of the model takes as its first argument.

  \<^item> \<open>proto_Unmarshal\<close>, \<open>proto_Marshal\<close>: \<^verbatim>\<open>proto.Unmarshal(bytes, &msg)\<close> and
    \<^verbatim>\<open>proto.Marshal(&msg)\<close> at the message type \<^verbatim>\<open>pb.PeerRecord\<close>.
  \<^item> \<open>ID_zero\<close>: the zero value of the type \<^verbatim>\<open>ID\<close>.
  \<^item> \<open>ID_UnmarshalBinary\<close>, \<open>ID_MarshalBinary\<close>: \<^verbatim>\<open>id.UnmarshalBinary(data)\<close> (as the new
    value of \<^verbatim>\<open>id\<close>, or the error) and \<^verbatim>\<open>id.MarshalBinary()\<close>.
  \<^item> \<open>IDFromPrivateKey\<close>: the function of that name.
  \<^item> \<open>NewMultiaddrBytes\<close>, \<open>Multiaddr_Bytes\<close>, \<open>Multiaddr_Equal\<close>: \<^verbatim>\<open>ma.NewMultiaddrBytes(b)\<close>,
    \<^verbatim>\<open>addr.Bytes()\<close> and \<^verbatim>\<open>a.Equal(b)\<close>.
  \<^item> \<open>Envelope_seal\<close>: what \<^verbatim>\<open>record.MakeEnvelopeWithRecord\<close> does with the serialized
    record (see \<open>MakeEnvelopeWithRecord\<close> below).
  \<^item> \<open>Envelope_Marshal\<close>: \<^verbatim>\<open>env.Marshal()\<close>.

  \<open>'priv\<close> is \<^verbatim>\<open>crypto.PrivKey\<close>, \<open>'env\<close> is what a \<^verbatim>\<open>*record.Envelope\<close> points to.
\<close>

record ('id, 'addr, 'priv, 'env) externals =
  proto_Unmarshal :: "bytes \<Rightarrow> error + pb_PeerRecord"
  proto_Marshal :: "pb_PeerRecord \<Rightarrow> error + bytes"
  ID_zero :: 'id
  ID_UnmarshalBinary :: "bytes \<Rightarrow> error + 'id"
  ID_MarshalBinary :: "'id \<Rightarrow> error + bytes"
  IDFromPrivateKey :: "'priv \<Rightarrow> error + 'id"
  NewMultiaddrBytes :: "bytes \<Rightarrow> error + 'addr"
  Multiaddr_Bytes :: "'addr \<Rightarrow> bytes"
  Multiaddr_Equal :: "'addr \<Rightarrow> 'addr \<Rightarrow> bool"
  Envelope_seal :: "'priv \<Rightarrow> string \<Rightarrow> bytes \<Rightarrow> bytes \<Rightarrow> error + 'env"
  Envelope_Marshal :: "'env \<Rightarrow> error + bytes"

subsection \<open>Constants\<close>

text \<open>Go's conversion \<^verbatim>\<open>[]byte(s)\<close> of a string to its bytes.\<close>

definition bytes_of_string :: "string \<Rightarrow> bytes" where
  "bytes_of_string s = map (\<lambda>c. word_of_nat (of_char c)) s"

text \<open>\<^verbatim>\<open>const PeerRecordEnvelopeDomain = "libp2p-peer-record"\<close>\<close>

definition PeerRecordEnvelopeDomain :: string where
  "PeerRecordEnvelopeDomain = ''libp2p-peer-record''"

text \<open>
  \<^verbatim>\<open>var PeerRecordEnvelopePayloadType = []byte("/libp2p/peer-record")\<close>. The file
  declares a package variable and never assigns to it again; it is a constant here.
\<close>

definition PeerRecordEnvelopePayloadType :: bytes where
  "PeerRecordEnvelopePayloadType = bytes_of_string ''/libp2p/peer-record''"

subsection \<open>addrsFromProtobuf and addrsToProtobuf\<close>

text \<open>
  \<^verbatim>\<open>
  var out []ma.Multiaddr
  for _, addr := range addrs {
      a, err := ma.NewMultiaddrBytes(addr.Multiaddr)
      if err != nil { continue }
      out = append(out, a)
  }
  return out
  \<close>
  The loop is a recursion over the entries left, with \<open>out\<close> as the accumulator.
\<close>

fun addrsFromProtobuf_loop ::
  "('id, 'addr, 'priv, 'env) externals \<Rightarrow> 'addr list \<Rightarrow> pb_AddressInfo list \<Rightarrow> 'addr list" where
  "addrsFromProtobuf_loop X out [] = out"
| "addrsFromProtobuf_loop X out (addr # addrs) =
     (case NewMultiaddrBytes X (pb_Multiaddr addr) of
        Inl err \<Rightarrow> addrsFromProtobuf_loop X out addrs
      | Inr a \<Rightarrow> addrsFromProtobuf_loop X (out @ [a]) addrs)"

definition addrsFromProtobuf ::
  "('id, 'addr, 'priv, 'env) externals \<Rightarrow> pb_AddressInfo list \<Rightarrow> 'addr list" where
  "addrsFromProtobuf X addrs = addrsFromProtobuf_loop X [] addrs"

text \<open>
  \<^verbatim>\<open>
  var out []*pb.PeerRecord_AddressInfo
  for _, addr := range addrs {
      out = append(out, &pb.PeerRecord_AddressInfo{Multiaddr: addr.Bytes()})
  }
  return out
  \<close>
\<close>

fun addrsToProtobuf_loop ::
  "('id, 'addr, 'priv, 'env) externals \<Rightarrow> pb_AddressInfo list \<Rightarrow> 'addr list \<Rightarrow> pb_AddressInfo list" where
  "addrsToProtobuf_loop X out [] = out"
| "addrsToProtobuf_loop X out (addr # addrs) =
     addrsToProtobuf_loop X (out @ [\<lparr>pb_Multiaddr = Multiaddr_Bytes X addr\<rparr>]) addrs"

definition addrsToProtobuf ::
  "('id, 'addr, 'priv, 'env) externals \<Rightarrow> 'addr list \<Rightarrow> pb_AddressInfo list" where
  "addrsToProtobuf X addrs = addrsToProtobuf_loop X [] addrs"

subsection \<open>UnmarshalRecord\<close>

text \<open>
  \<^verbatim>\<open>
  if r == nil { return fmt.Errorf("cannot unmarshal PeerRecord to nil receiver") }
  var msg pb.PeerRecord
  err := proto.Unmarshal(bytes, &msg)
  if err != nil { return err }
  var id ID
  err = id.UnmarshalBinary(msg.PeerId)
  if err != nil { return err }
  r.PeerID = id
  r.Addrs = addrsFromProtobuf(msg.Addresses)
  r.Seq = msg.Seq
  return nil
  \<close>
  The message and the identity are decoded into local variables; the three assignments
  to the receiver's fields come after both error returns. The result is the receiver
  after the call and the returned error.
\<close>

definition UnmarshalRecord ::
  "('id, 'addr, 'priv, 'env) externals \<Rightarrow> ('id, 'addr) PeerRecord option \<Rightarrow> bytes
     \<Rightarrow> ('id, 'addr) PeerRecord option \<times> error option" where
  "UnmarshalRecord X r bs =
     (case r of
        None \<Rightarrow> (None, Some NilReceiver)
      | Some rv \<Rightarrow>
          (case proto_Unmarshal X bs of
             Inl err \<Rightarrow> (Some rv, Some err)
           | Inr msg \<Rightarrow>
               (case ID_UnmarshalBinary X (pb_PeerId msg) of
                  Inl err \<Rightarrow> (Some rv, Some err)
                | Inr ident \<Rightarrow>
                    (Some (rv\<lparr>PeerID := ident,
                              Addrs := addrsFromProtobuf X (pb_Addresses msg),
                              Seq := pb_Seq msg\<rparr>),
                     None))))"

subsection \<open>MarshalRecord\<close>

text \<open>
  \<^verbatim>\<open>
  idBytes, err := r.PeerID.MarshalBinary()
  if err != nil { return nil, err }
  msg := pb.PeerRecord{PeerId: idBytes, Addresses: addrsToProtobuf(r.Addrs), Seq: r.Seq}
  return proto.Marshal(&msg)
  \<close>
  Reading \<^verbatim>\<open>r.PeerID\<close> through a \<^verbatim>\<open>nil\<close> receiver panics.
\<close>

definition MarshalRecord ::
  "('id, 'addr, 'priv, 'env) externals \<Rightarrow> ('id, 'addr) PeerRecord option
     \<Rightarrow> ('id, 'addr) PeerRecord option \<times> (error + bytes)" where
  "MarshalRecord X r =
     (case r of
        None \<Rightarrow> (None, Inl NilDereference)
      | Some rv \<Rightarrow>
          (case ID_MarshalBinary X (PeerID rv) of
             Inl err \<Rightarrow> (Some rv, Inl err)
           | Inr idBytes \<Rightarrow>
               (Some rv,
                proto_Marshal X \<lparr>pb_PeerId = idBytes,
                                 pb_Addresses = addrsToProtobuf X (Addrs rv),
                                 pb_Seq = Seq rv\<rparr>)))"

subsection \<open>Sign and MarshalSigned\<close>

text \<open>
  Modelled from the spec: \<^verbatim>\<open>record.MakeEnvelopeWithRecord\<close>, which lives in package
  record and is not part of this file. The spec's \<^verbatim>\<open>makeEnvelope\<close> "serializes record to
  bytes (via the Record's serialize capability -- propagate its error)", then builds the
  signing message from the domain, the payload type and the payload, signs it and
  returns the Envelope. The first step is \<open>MarshalRecord\<close> on the record handed in; the
  remaining steps are the parameter \<open>Envelope_seal\<close>, applied to the private key, the
  domain, the payload type and the serialized payload.
\<close>

definition MakeEnvelopeWithRecord ::
  "('id, 'addr, 'priv, 'env) externals \<Rightarrow> 'priv \<Rightarrow> string \<Rightarrow> bytes
     \<Rightarrow> ('id, 'addr) PeerRecord option \<Rightarrow> ('id, 'addr) PeerRecord option \<times> (error + 'env)" where
  "MakeEnvelopeWithRecord X privKey domain payloadType rec =
     (case MarshalRecord X rec of
        (rec', Inl err) \<Rightarrow> (rec', Inl err)
      | (rec', Inr payload) \<Rightarrow> (rec', Envelope_seal X privKey domain payloadType payload))"

text \<open>
  \<^verbatim>\<open>
  p, err := IDFromPrivateKey(privKey)
  if err != nil { return nil, err }
  if p != r.PeerID { return nil, ErrPeerIdMismatch }
  return record.MakeEnvelopeWithRecord(privKey, PeerRecordEnvelopeDomain, PeerRecordEnvelopePayloadType, r)
  \<close>
  The comparison reads \<^verbatim>\<open>r.PeerID\<close>, which panics on a \<^verbatim>\<open>nil\<close> receiver; the key's
  identity is derived, and its error returned, before that.
\<close>

definition Sign ::
  "('id, 'addr, 'priv, 'env) externals \<Rightarrow> ('id, 'addr) PeerRecord option \<Rightarrow> 'priv
     \<Rightarrow> ('id, 'addr) PeerRecord option \<times> (error + 'env)" where
  "Sign X r privKey =
     (case IDFromPrivateKey X privKey of
        Inl err \<Rightarrow> (r, Inl err)
      | Inr p \<Rightarrow>
          (case r of
             None \<Rightarrow> (None, Inl NilDereference)
           | Some rv \<Rightarrow>
               if p \<noteq> PeerID rv then (Some rv, Inl ErrPeerIdMismatch)
               else MakeEnvelopeWithRecord X privKey PeerRecordEnvelopeDomain
                      PeerRecordEnvelopePayloadType (Some rv)))"

text \<open>
  \<^verbatim>\<open>
  env, err := r.Sign(privKey)
  if err != nil { return nil, err }
  return env.Marshal()
  \<close>
\<close>

definition MarshalSigned ::
  "('id, 'addr, 'priv, 'env) externals \<Rightarrow> ('id, 'addr) PeerRecord option \<Rightarrow> 'priv
     \<Rightarrow> ('id, 'addr) PeerRecord option \<times> (error + bytes)" where
  "MarshalSigned X r privKey =
     (case Sign X r privKey of
        (r', Inl err) \<Rightarrow> (r', Inl err)
      | (r', Inr env) \<Rightarrow> (r', Envelope_Marshal X env))"

subsection \<open>Equal\<close>

text \<open>
  \<^verbatim>\<open>
  for i, _ := range r.Addrs {
      if !r.Addrs[i].Equal(other.Addrs[i]) { return false }
  }
  return true
  \<close>
  The loop runs over the indices of \<^verbatim>\<open>r.Addrs\<close>; it is entered only after the two
  lengths were found equal, so every index is in range for both slices.
\<close>

fun Equal_loop ::
  "('id, 'addr, 'priv, 'env) externals \<Rightarrow> 'addr list \<Rightarrow> 'addr list \<Rightarrow> nat list \<Rightarrow> bool" where
  "Equal_loop X xs ys [] = True"
| "Equal_loop X xs ys (i # rest) =
     (if \<not> Multiaddr_Equal X (xs ! i) (ys ! i) then False else Equal_loop X xs ys rest)"

text \<open>
  With \<^verbatim>\<open>other == nil\<close> the method returns \<^verbatim>\<open>r == nil\<close>. Otherwise it reads
  \<^verbatim>\<open>r.PeerID\<close>, which panics when the receiver is \<^verbatim>\<open>nil\<close>.
\<close>

definition Equal ::
  "('id, 'addr, 'priv, 'env) externals \<Rightarrow> ('id, 'addr) PeerRecord option
     \<Rightarrow> ('id, 'addr) PeerRecord option \<Rightarrow> ('id, 'addr) PeerRecord option \<times> (error + bool)" where
  "Equal X r other =
     (case other of
        None \<Rightarrow> (r, Inr (r = None))
      | Some ov \<Rightarrow>
          (case r of
             None \<Rightarrow> (None, Inl NilDereference)
           | Some rv \<Rightarrow>
               if PeerID rv \<noteq> PeerID ov then (Some rv, Inr False)
               else if Seq rv \<noteq> Seq ov then (Some rv, Inr False)
               else if length (Addrs rv) \<noteq> length (Addrs ov) then (Some rv, Inr False)
               else (Some rv, Inr (Equal_loop X (Addrs rv) (Addrs ov) [0..<length (Addrs rv)]))))"

subsection \<open>init and the payload type registry\<close>

text \<open>
  Modelled from the spec: the Payload Type Registry, which lives in package record and
  is not part of this file. The spec describes the
  registry as a "process-wide mapping from an opaque byte-string type tag to a prototype
  value capable of decoding bytes into a concrete record instance", with
  \<^verbatim>\<open>register(tag, prototype)\<close> and \<^verbatim>\<open>lookup(tag) -> prototype or "unknown type"\<close>. A prototype
  is a value of the interface \<^verbatim>\<open>Record\<close>: a \<^verbatim>\<open>*PeerRecord\<close>, or a record of another kind
  (\<open>'k\<close>), of which this file knows nothing.
\<close>

datatype ('id, 'addr, 'k) Record =
    PeerRecordPtr "('id, 'addr) PeerRecord option"
  | OtherRecord 'k

type_synonym ('id, 'addr, 'k) registry = "bytes \<rightharpoonup> ('id, 'addr, 'k) Record"

text \<open>
  Modelled from the spec: \<^verbatim>\<open>record.RegisterPayloadType\<close>, the spec's
  \<^verbatim>\<open>register(tag, prototype)\<close>. The registry maps the tag to the prototype from then on
  (for a tag registered before, the spec accepts that the last registration wins).
\<close>

definition RegisterPayloadType ::
  "('id, 'addr, 'k) registry \<Rightarrow> bytes \<Rightarrow> ('id, 'addr, 'k) Record \<Rightarrow> ('id, 'addr, 'k) registry" where
  "RegisterPayloadType reg payloadType prototype = reg(payloadType \<mapsto> prototype)"

text \<open>
  Modelled from the spec: the registry's \<^verbatim>\<open>lookup(tag) -> prototype or "unknown type"\<close>;
  \<open>None\<close> is the unknown type.
\<close>

definition lookup ::
  "('id, 'addr, 'k) registry \<Rightarrow> bytes \<Rightarrow> ('id, 'addr, 'k) Record option" where
  "lookup reg payloadType = reg payloadType"

text \<open>
  \<^verbatim>\<open>func init() { record.RegisterPayloadType(PeerRecordEnvelopePayloadType, &PeerRecord{}) }\<close>.
  The prototype points to a fresh record with every field at its zero value.
\<close>

definition init ::
  "('id, 'addr, 'priv, 'env) externals \<Rightarrow> ('id, 'addr, 'k) registry \<Rightarrow> ('id, 'addr, 'k) registry" where
  "init X reg =
     RegisterPayloadType reg PeerRecordEnvelopePayloadType
       (PeerRecordPtr (Some \<lparr>PeerID = ID_zero X, Addrs = [], Seq = 0\<rparr>))"

section \<open>A concrete instance of the external functions\<close>

text \<open>
  To run the model on concrete inputs the external functions need values. The instance
  below is small and self-contained: identities and addresses are byte strings (the empty
  string is no identity and no address), a private key is a byte (key \<open>k\<close> has the identity
  \<open>[k]\<close>, the key \<open>0\<close> is rejected), and the wire codec writes one byte for \<open>Seq\<close> and then
  each field (the peer identity, then every address) behind one byte giving its length.
  An envelope is the tuple of what it was sealed from.
\<close>

fun sample_fields :: "bytes \<Rightarrow> bytes list option" where
  "sample_fields [] = Some []"
| "sample_fields (n # rest) =
     (if length rest < unat n then None
      else map_option ((#) (take (unat n) rest)) (sample_fields (drop (unat n) rest)))"

definition sample_proto_Marshal :: "pb_PeerRecord \<Rightarrow> error + bytes" where
  "sample_proto_Marshal m =
     (let fields = pb_PeerId m # map pb_Multiaddr (pb_Addresses m) in
      if unat (pb_Seq m) < 256 \<and> list_all (\<lambda>f. length f < 256) fields
      then Inr (ucast (pb_Seq m) # concat (map (\<lambda>f. word_of_nat (length f) # f) fields))
      else Inl (CalleeError ''proto: message too large''))"

definition sample_proto_Unmarshal :: "bytes \<Rightarrow> error + pb_PeerRecord" where
  "sample_proto_Unmarshal bs =
     (case bs of
        [] \<Rightarrow> Inl (CalleeError ''proto: unexpected EOF'')
      | s # rest \<Rightarrow>
          (case sample_fields rest of
             Some (i # as) \<Rightarrow>
               Inr \<lparr>pb_PeerId = i,
                    pb_Addresses = map (\<lambda>a. \<lparr>pb_Multiaddr = a\<rparr>) as,
                    pb_Seq = ucast s\<rparr>
           | _ \<Rightarrow> Inl (CalleeError ''proto: unexpected EOF'')))"

definition sample_externals :: "(bytes, bytes, byte, byte \<times> string \<times> bytes \<times> bytes) externals" where
  "sample_externals =
     \<lparr>proto_Unmarshal = sample_proto_Unmarshal,
      proto_Marshal = sample_proto_Marshal,
      ID_zero = [],
      ID_UnmarshalBinary = (\<lambda>b. if b = [] then Inl (CalleeError ''empty peer id'') else Inr b),
      ID_MarshalBinary = Inr,
      IDFromPrivateKey = (\<lambda>k. if k = 0 then Inl (CalleeError ''bad key'') else Inr [k]),
      NewMultiaddrBytes = (\<lambda>b. if b = [] then Inl (CalleeError ''empty multiaddr'') else Inr b),
      Multiaddr_Bytes = (\<lambda>a. a),
      Multiaddr_Equal = (=),
      Envelope_seal = (\<lambda>k d t p. Inr (k, d, t, p)),
      Envelope_Marshal = (\<lambda>(k, d, t, p). Inr (k # t @ p))\<rparr>"

text \<open>
  A record of the peer with identity \<open>[7]\<close> and two addresses, and the same record with
  the two addresses in the other order.
\<close>

definition sample_record :: "(bytes, bytes) PeerRecord" where
  "sample_record = \<lparr>PeerID = [7], Addrs = [[4, 1, 2, 3, 4], [6, 15, 161]], Seq = 5\<rparr>"

definition sample_swapped :: "(bytes, bytes) PeerRecord" where
  "sample_swapped = \<lparr>PeerID = [7], Addrs = [[6, 15, 161], [4, 1, 2, 3, 4]], Seq = 5\<rparr>"

section \<open>Lemmas about the model\<close>

subsection \<open>The two address loops\<close>

text \<open>
  \<open>addrsFromProtobuf\<close> keeps, in the order of the entries, the parse result of every
  entry that parses; \<open>addrsToProtobuf\<close> writes one entry per address.
\<close>

lemma addrsFromProtobuf_eq:
  "addrsFromProtobuf X es =
     map (\<lambda>e. projr (NewMultiaddrBytes X (pb_Multiaddr e)))
       (filter (\<lambda>e. \<not> isl (NewMultiaddrBytes X (pb_Multiaddr e))) es)"
proof -
  have "addrsFromProtobuf_loop X out es =
     out @ map (\<lambda>e. projr (NewMultiaddrBytes X (pb_Multiaddr e)))
             (filter (\<lambda>e. \<not> isl (NewMultiaddrBytes X (pb_Multiaddr e))) es)" for out
    by (induction es arbitrary: out) (auto split: sum.splits)
  then show ?thesis by (simp add: addrsFromProtobuf_def)
qed

lemma addrsToProtobuf_eq:
  "addrsToProtobuf X as = map (\<lambda>a. \<lparr>pb_Multiaddr = Multiaddr_Bytes X a\<rparr>) as"
proof -
  have "addrsToProtobuf_loop X out as =
      out @ map (\<lambda>a. \<lparr>pb_Multiaddr = Multiaddr_Bytes X a\<rparr>) as" for out
    by (induction as arbitrary: out) auto
  then show ?thesis by (simp add: addrsToProtobuf_def)
qed

lemma addrs_roundtrip:
  assumes "\<forall>a\<in>set as. \<exists>a'. NewMultiaddrBytes X (Multiaddr_Bytes X a) = Inr a' \<and> Multiaddr_Equal X a' a"
  shows "length (addrsFromProtobuf X (addrsToProtobuf X as)) = length as
     \<and> (\<forall>i<length as. Multiaddr_Equal X (addrsFromProtobuf X (addrsToProtobuf X as) ! i) (as ! i))"
proof -
  let ?parse = "\<lambda>a. NewMultiaddrBytes X (Multiaddr_Bytes X a)"
  have keep: "filter (\<lambda>a. \<not> isl (?parse a)) as = as"
    using assms by (auto simp: filter_id_conv)
  have "addrsFromProtobuf X (addrsToProtobuf X as) = map (\<lambda>a. projr (?parse a)) as"
    by (simp add: addrsFromProtobuf_eq addrsToProtobuf_eq filter_map comp_def keep)
  moreover have "Multiaddr_Equal X (projr (?parse (as ! i))) (as ! i)" if "i < length as" for i
    using assms that by (metis nth_mem sum.sel(2))
  ultimately show ?thesis by simp
qed

subsection \<open>The loop of Equal\<close>

lemma Equal_loop_iff:
  "Equal_loop X xs ys is \<longleftrightarrow> (\<forall>i\<in>set is. Multiaddr_Equal X (xs ! i) (ys ! i))"
  by (induction "is") auto

lemma Equal_loop_all_indices:
  "Equal_loop X xs ys [0..<n] \<longleftrightarrow> (\<forall>i<n. Multiaddr_Equal X (xs ! i) (ys ! i))"
  by (auto simp: Equal_loop_iff)

subsection \<open>UnmarshalRecord on a present receiver\<close>

lemma UnmarshalRecord_present:
  "UnmarshalRecord X (Some r) bs =
     (case proto_Unmarshal X bs of
        Inl err \<Rightarrow> (Some r, Some err)
      | Inr msg \<Rightarrow>
          (case ID_UnmarshalBinary X (pb_PeerId msg) of
             Inl err \<Rightarrow> (Some r, Some err)
           | Inr ident \<Rightarrow>
               (Some \<lparr>PeerID = ident, Addrs = addrsFromProtobuf X (pb_Addresses msg), Seq = pb_Seq msg\<rparr>,
                None)))"
  by (simp add: UnmarshalRecord_def split: sum.splits)

subsection \<open>The receiver after a method that only reads\<close>

lemma MarshalRecord_receiver: "fst (MarshalRecord X r) = r"
  by (simp add: MarshalRecord_def split: option.splits sum.splits)

lemma MakeEnvelopeWithRecord_receiver: "fst (MakeEnvelopeWithRecord X k d t r) = r"
  using MarshalRecord_receiver [of X r]
  by (auto simp: MakeEnvelopeWithRecord_def split: prod.splits sum.splits)

lemma Sign_receiver: "fst (Sign X r k) = r"
  by (simp add: Sign_def MakeEnvelopeWithRecord_receiver split: option.splits sum.splits)

lemma MarshalSigned_receiver: "fst (MarshalSigned X r k) = r"
  using Sign_receiver [of X r k]
  by (auto simp: MarshalSigned_def split: prod.splits sum.splits)

lemma Equal_receiver: "fst (Equal X r other) = r"
  by (simp add: Equal_def split: option.splits)

subsection \<open>The payload type tag, byte by byte\<close>

lemma PeerRecordEnvelopePayloadType_bytes:
  "PeerRecordEnvelopePayloadType =
     [0x2F, 0x6C, 0x69, 0x62, 0x70, 0x32, 0x70, 0x2F,
      0x70, 0x65, 0x65, 0x72, 0x2D, 0x72, 0x65, 0x63, 0x6F, 0x72, 0x64]"
  by (simp add: PeerRecordEnvelopePayloadType_def bytes_of_string_def)

subsection \<open>The concrete instance\<close>

text \<open>The sample codec reads back every message it writes.\<close>

lemma sample_fields_concat:
  "list_all (\<lambda>f. length f < 256) fs \<Longrightarrow>
     sample_fields (concat (map (\<lambda>f. word_of_nat (length f) # f) fs)) = Some fs"
  by (induction fs) (auto simp: unat_of_nat)

lemma ucast_byte_back:
  fixes s :: "64 word"
  assumes "unat s < 256"
  shows "(ucast (ucast s :: byte) :: 64 word) = s"
proof -
  have "unat (ucast (ucast s :: byte) :: 64 word) = unat s"
    using assms by (simp add: unsigned_ucast_eq unsigned_take_bit_eq take_bit_nat_eq_self)
  then show ?thesis by (simp only: word_unat_eq_iff)
qed

lemma sample_proto_roundtrip:
  assumes "sample_proto_Marshal m = Inr b"
  shows "sample_proto_Unmarshal b = Inr m"
proof -
  let ?fields = "pb_PeerId m # map pb_Multiaddr (pb_Addresses m)"
  from assms have small: "unat (pb_Seq m) < 256"
    and short: "list_all (\<lambda>f. length f < 256) ?fields"
    and b: "b = ucast (pb_Seq m) # concat (map (\<lambda>f. word_of_nat (length f) # f) ?fields)"
    by (auto simp: sample_proto_Marshal_def Let_def split: if_splits)
  have "sample_fields (concat (map (\<lambda>f. word_of_nat (length f) # f) ?fields)) = Some ?fields"
    using short by (rule sample_fields_concat)
  then have "sample_proto_Unmarshal b =
      Inr \<lparr>pb_PeerId = pb_PeerId m,
           pb_Addresses = map (\<lambda>a. \<lparr>pb_Multiaddr = a\<rparr>) (map pb_Multiaddr (pb_Addresses m)),
           pb_Seq = ucast (ucast (pb_Seq m) :: byte)\<rparr>"
    unfolding sample_proto_Unmarshal_def b by (simp only: list.case option.case)
  moreover have "map (\<lambda>a. \<lparr>pb_Multiaddr = a\<rparr>) (map pb_Multiaddr (pb_Addresses m)) = pb_Addresses m"
    by (induction "pb_Addresses m") (simp_all add: map_idI)
  ultimately show ?thesis
    by (simp add: ucast_byte_back [OF small])
qed

lemma sample_codec_reads_back:
  "proto_Marshal sample_externals m = Inr b \<Longrightarrow> proto_Unmarshal sample_externals b = Inr m"
  by (simp add: sample_externals_def sample_proto_roundtrip)

text \<open>The sample record under each method.\<close>

lemma sample_zero: "ID_zero sample_externals = []"
  by (simp add: sample_externals_def)

lemma sample_key: "IDFromPrivateKey sample_externals 7 = Inr (PeerID sample_record)"
  by (simp add: sample_externals_def sample_record_def)

lemma sample_other_key:
  "IDFromPrivateKey sample_externals 9 = Inr [9] \<and> [9] \<noteq> PeerID sample_record"
  by (simp add: sample_externals_def sample_record_def)

lemma sample_marshalled:
  "MarshalRecord sample_externals (Some sample_record) =
     (Some sample_record, Inr [5, 1, 7, 5, 4, 1, 2, 3, 4, 3, 6, 15, 161])"
  by (simp add: MarshalRecord_def addrsToProtobuf_def sample_externals_def
      sample_proto_Marshal_def sample_record_def)

lemma sample_sealed:
  "MakeEnvelopeWithRecord sample_externals 7 d t (Some sample_record) =
     (Some sample_record, Inr (7, d, t, [5, 1, 7, 5, 4, 1, 2, 3, 4, 3, 6, 15, 161]))"
  by (simp add: MakeEnvelopeWithRecord_def sample_marshalled) (simp add: sample_externals_def)

lemma sample_signed:
  "Sign sample_externals (Some sample_record) 7 =
     (Some sample_record,
      Inr (7, ''libp2p-peer-record'', bytes_of_string ''/libp2p/peer-record'',
           [5, 1, 7, 5, 4, 1, 2, 3, 4, 3, 6, 15, 161]))"
  by (simp add: Sign_def sample_key sample_sealed
      PeerRecordEnvelopeDomain_def PeerRecordEnvelopePayloadType_def)

lemma sample_sign_refused:
  "Sign sample_externals (Some sample_record) 9 = (Some sample_record, Inl ErrPeerIdMismatch)"
  using sample_other_key by (simp add: Sign_def)

lemma sample_addrs_parse:
  "\<forall>a\<in>set (Addrs sample_record).
     \<exists>a'. NewMultiaddrBytes sample_externals (Multiaddr_Bytes sample_externals a) = Inr a'
          \<and> Multiaddr_Equal sample_externals a' a"
  by (simp add: sample_externals_def sample_record_def)

text \<open>
  Three inputs to the decoder: a message whose second address entry is empty (and so does
  not parse), a message cut short, and a message with an empty peer identity.
\<close>

lemma sample_lenient_wire:
  "proto_Unmarshal sample_externals [5, 1, 7, 2, 9, 9, 0, 1, 8] =
     Inr \<lparr>pb_PeerId = [7],
          pb_Addresses = [\<lparr>pb_Multiaddr = [9, 9]\<rparr>, \<lparr>pb_Multiaddr = []\<rparr>, \<lparr>pb_Multiaddr = [8]\<rparr>],
          pb_Seq = 5\<rparr>"
  by (simp add: sample_externals_def sample_proto_Unmarshal_def)

lemma sample_identity_bytes: "ID_UnmarshalBinary sample_externals [7] = Inr [7]"
  by (simp add: sample_externals_def)

lemma sample_lenient_decode:
  "UnmarshalRecord sample_externals (Some r) [5, 1, 7, 2, 9, 9, 0, 1, 8] =
     (Some \<lparr>PeerID = [7], Addrs = [[9, 9], [8]], Seq = 5\<rparr>, None)"
  by (simp add: UnmarshalRecord_present sample_lenient_wire sample_identity_bytes addrsFromProtobuf_def)
     (simp add: sample_externals_def)

lemma sample_truncated:
  "UnmarshalRecord sample_externals (Some r) [5, 3, 7] =
     (Some r, Some (CalleeError ''proto: unexpected EOF''))"
  by (simp add: UnmarshalRecord_def sample_externals_def sample_proto_Unmarshal_def)

lemma sample_bad_identity:
  "UnmarshalRecord sample_externals (Some r) [5, 0] = (Some r, Some (CalleeError ''empty peer id''))"
  by (simp add: UnmarshalRecord_def sample_externals_def sample_proto_Unmarshal_def)

lemma sample_indices: "[0..<length (Addrs sample_record)] = [0, 1]"
  by (simp add: sample_record_def upt_rec)

lemma sample_Equal_self:
  "Equal sample_externals (Some sample_record) (Some sample_record) = (Some sample_record, Inr True)"
  by (simp add: Equal_def sample_indices) (simp add: sample_externals_def)

lemma sample_Equal_swapped:
  "Equal sample_externals (Some sample_record) (Some sample_swapped) = (Some sample_record, Inr False)"
  by (simp add: Equal_def sample_indices)
     (simp add: sample_externals_def sample_record_def sample_swapped_def)

lemma sample_Equal_nil:
  "Equal sample_externals (Some sample_record) None = (Some sample_record, Inr False)"
  by (simp add: Equal_def)

lemma nil_Equal_nil: "Equal sample_externals None None = (None, Inr True)"
  by (simp add: Equal_def)

section \<open>Properties\<close>

text \<open>
  C1. For every PeerRecord \<open>r\<close> and private key \<open>k\<close>: when the peer identity derived from
  \<open>k\<close> differs from \<open>r.PeerID\<close>, \<open>Sign\<close> fails with \<open>ErrPeerIdMismatch\<close>; and whenever \<open>Sign\<close>
  returns an Envelope, the identity derived from \<open>k\<close> is \<open>r.PeerID\<close>.
\<close>

theorem Sign_identity_check:
  "(\<forall>p. IDFromPrivateKey X k = Inr p \<and> p \<noteq> PeerID r \<longrightarrow>
        snd (Sign X (Some r) k) = Inl ErrPeerIdMismatch)
   \<and> (\<forall>env. snd (Sign X (Some r) k) = Inr env \<longrightarrow> IDFromPrivateKey X k = Inr (PeerID r))"
proof (intro conjI allI impI)
  fix p
  assume "IDFromPrivateKey X k = Inr p \<and> p \<noteq> PeerID r"
  then show "snd (Sign X (Some r) k) = Inl ErrPeerIdMismatch"
    by (simp add: Sign_def)
next
  fix env
  assume signed: "snd (Sign X (Some r) k) = Inr env"
  show "IDFromPrivateKey X k = Inr (PeerID r)"
  proof (cases "IDFromPrivateKey X k")
    case (Inl err)
    with signed show ?thesis by (simp add: Sign_def)
  next
    case (Inr p)
    with signed show ?thesis by (cases "p = PeerID r") (simp_all add: Sign_def)
  qed
qed

theorem Sign_identity_check_witness:
  "IDFromPrivateKey sample_externals 9 = Inr [9] \<and> [9] \<noteq> PeerID sample_record
   \<and> snd (Sign sample_externals (Some sample_record) 9) = Inl ErrPeerIdMismatch
   \<and> snd (Sign sample_externals (Some sample_record) 7) =
       Inr (7, ''libp2p-peer-record'', bytes_of_string ''/libp2p/peer-record'',
            [5, 1, 7, 5, 4, 1, 2, 3, 4, 3, 6, 15, 161])
   \<and> IDFromPrivateKey sample_externals 7 = Inr (PeerID sample_record)"
  using Sign_identity_check [of sample_externals 9 sample_record]
    Sign_identity_check [of sample_externals 7 sample_record]
  by (simp add: sample_signed sample_key sample_other_key)

text \<open>
  C2, as stated, fails. The claim asks only that the addresses be well-formed. The record
  below has no address at all and an empty peer identity. \<open>MarshalRecord\<close> serializes it,
  and the wire codec reads the bytes back as the very message that was written; but
  \<open>UnmarshalRecord\<close> hands the identity bytes to the identity codec, which refuses them,
  and returns that error (the second error return of the method). No record comes back.
\<close>

theorem roundtrip_fails_on_malformed_PeerID:
  "Addrs \<lparr>PeerID = [] :: bytes, Addrs = [] :: bytes list, Seq = 5\<rparr> = []
   \<and> snd (MarshalRecord sample_externals (Some \<lparr>PeerID = [], Addrs = [], Seq = 5\<rparr>)) = Inr [5, 0]
   \<and> proto_Unmarshal sample_externals [5, 0] = Inr \<lparr>pb_PeerId = [], pb_Addresses = [], pb_Seq = 5\<rparr>
   \<and> UnmarshalRecord sample_externals (Some \<lparr>PeerID = [], Addrs = [], Seq = 0\<rparr>) [5, 0] =
       (Some \<lparr>PeerID = [], Addrs = [], Seq = 0\<rparr>, Some (CalleeError ''empty peer id''))"
proof (intro conjI)
  show "Addrs \<lparr>PeerID = [] :: bytes, Addrs = [] :: bytes list, Seq = 5\<rparr> = []"
    by simp
  show "snd (MarshalRecord sample_externals (Some \<lparr>PeerID = [], Addrs = [], Seq = 5\<rparr>)) = Inr [5, 0]"
    by (simp add: MarshalRecord_def addrsToProtobuf_def sample_externals_def sample_proto_Marshal_def)
  show "proto_Unmarshal sample_externals [5, 0] =
          Inr \<lparr>pb_PeerId = [], pb_Addresses = [], pb_Seq = 5\<rparr>"
    by (simp add: sample_externals_def sample_proto_Unmarshal_def)
  show "UnmarshalRecord sample_externals (Some \<lparr>PeerID = [], Addrs = [], Seq = 0\<rparr>) [5, 0] =
          (Some \<lparr>PeerID = [], Addrs = [], Seq = 0\<rparr>, Some (CalleeError ''empty peer id''))"
    by (rule sample_bad_identity)
qed

text \<open>
  C2, amended. For every PeerRecord \<open>r\<close> whose peer identity is well-formed (the identity
  codec writes it as bytes \<open>ib\<close> and reads \<open>ib\<close> back as \<open>r.PeerID\<close>) and all of whose
  addresses are well-formed (the bytes of each parse back to an address equal to it):
  \<open>MarshalRecord\<close> produces bytes, and \<open>UnmarshalRecord\<close> of these bytes, into any present
  receiver, succeeds and leaves a record that is \<open>Equal\<close> to \<open>r\<close>. The wire codec is
  external: it is taken to write the message made of \<open>ib\<close>, the addresses' bytes and
  \<open>r.Seq\<close> as some bytes \<open>b\<close>, and to read \<open>b\<close> back as that message.
\<close>

theorem marshal_unmarshal_roundtrip:
  assumes id_written: "ID_MarshalBinary X (PeerID r) = Inr ib"
    and id_read: "ID_UnmarshalBinary X ib = Inr (PeerID r)"
    and msg_written:
      "proto_Marshal X
         \<lparr>pb_PeerId = ib,
          pb_Addresses = map (\<lambda>a. \<lparr>pb_Multiaddr = Multiaddr_Bytes X a\<rparr>) (Addrs r),
          pb_Seq = Seq r\<rparr> = Inr b"
    and msg_read:
      "proto_Unmarshal X b =
         Inr \<lparr>pb_PeerId = ib,
              pb_Addresses = map (\<lambda>a. \<lparr>pb_Multiaddr = Multiaddr_Bytes X a\<rparr>) (Addrs r),
              pb_Seq = Seq r\<rparr>"
    and addrs_parse:
      "\<forall>a\<in>set (Addrs r).
         \<exists>a'. NewMultiaddrBytes X (Multiaddr_Bytes X a) = Inr a' \<and> Multiaddr_Equal X a' a"
  shows "snd (MarshalRecord X (Some r)) = Inr b
     \<and> (\<exists>r'. UnmarshalRecord X (Some r0) b = (Some r', None)
              \<and> snd (Equal X (Some r') (Some r)) = Inr True)"
proof
  show "snd (MarshalRecord X (Some r)) = Inr b"
    using id_written msg_written by (simp add: MarshalRecord_def addrsToProtobuf_eq)
next
  let ?r' = "\<lparr>PeerID = PeerID r,
              Addrs = addrsFromProtobuf X (addrsToProtobuf X (Addrs r)),
              Seq = Seq r\<rparr>"
  have dec: "UnmarshalRecord X (Some r0) b = (Some ?r', None)"
    using msg_read id_read by (simp add: UnmarshalRecord_present addrsToProtobuf_eq)
  have "snd (Equal X (Some ?r') (Some r)) = Inr True"
    using addrs_roundtrip [OF addrs_parse] by (simp add: Equal_def Equal_loop_all_indices)
  with dec show "\<exists>r'. UnmarshalRecord X (Some r0) b = (Some r', None)
              \<and> snd (Equal X (Some r') (Some r)) = Inr True"
    by blast
qed

theorem marshal_unmarshal_roundtrip_witness:
  "snd (MarshalRecord sample_externals (Some sample_record)) =
     Inr [5, 1, 7, 5, 4, 1, 2, 3, 4, 3, 6, 15, 161]
   \<and> (\<exists>r'. UnmarshalRecord sample_externals (Some \<lparr>PeerID = [], Addrs = [], Seq = 0\<rparr>)
              [5, 1, 7, 5, 4, 1, 2, 3, 4, 3, 6, 15, 161] = (Some r', None)
          \<and> snd (Equal sample_externals (Some r') (Some sample_record)) = Inr True)"
proof (rule marshal_unmarshal_roundtrip [where ib = "[7]"])
  show "ID_MarshalBinary sample_externals (PeerID sample_record) = Inr [7]"
    by (simp add: sample_externals_def sample_record_def)
  show "ID_UnmarshalBinary sample_externals [7] = Inr (PeerID sample_record)"
    by (simp add: sample_externals_def sample_record_def)
  show "proto_Marshal sample_externals
          \<lparr>pb_PeerId = [7],
           pb_Addresses =
             map (\<lambda>a. \<lparr>pb_Multiaddr = Multiaddr_Bytes sample_externals a\<rparr>) (Addrs sample_record),
           pb_Seq = Seq sample_record\<rparr> =
        Inr [5, 1, 7, 5, 4, 1, 2, 3, 4, 3, 6, 15, 161]"
    by (simp add: sample_externals_def sample_proto_Marshal_def sample_record_def)
  then show "proto_Unmarshal sample_externals [5, 1, 7, 5, 4, 1, 2, 3, 4, 3, 6, 15, 161] =
        Inr \<lparr>pb_PeerId = [7],
             pb_Addresses =
               map (\<lambda>a. \<lparr>pb_Multiaddr = Multiaddr_Bytes sample_externals a\<rparr>) (Addrs sample_record),
             pb_Seq = Seq sample_record\<rparr>"
    by (rule sample_codec_reads_back)
  show "\<forall>a\<in>set (Addrs sample_record).
          \<exists>a'. NewMultiaddrBytes sample_externals (Multiaddr_Bytes sample_externals a) = Inr a'
               \<and> Multiaddr_Equal sample_externals a' a"
    by (rule sample_addrs_parse)
qed

text \<open>
  C3. For every input byte sequence, \<open>UnmarshalRecord\<close> (on a present receiver; the absent
  receiver is C7) fails exactly when the input is structurally invalid: the wire message
  does not parse, or its peer identity bytes do not. When both parse the call succeeds,
  whatever the address entries hold: the decoded \<open>Addrs\<close> are the parse results of the
  entries that parse, in the order of the entries, and the entries that do not parse are
  dropped.
\<close>

theorem UnmarshalRecord_fails_only_on_structure:
  "(snd (UnmarshalRecord X (Some r) bs) \<noteq> None \<longleftrightarrow>
      (\<exists>e. proto_Unmarshal X bs = Inl e) \<or>
      (\<exists>msg e. proto_Unmarshal X bs = Inr msg \<and> ID_UnmarshalBinary X (pb_PeerId msg) = Inl e))
   \<and> (\<forall>msg ident.
        proto_Unmarshal X bs = Inr msg \<and> ID_UnmarshalBinary X (pb_PeerId msg) = Inr ident \<longrightarrow>
        UnmarshalRecord X (Some r) bs =
          (Some \<lparr>PeerID = ident,
                 Addrs = map (\<lambda>e. projr (NewMultiaddrBytes X (pb_Multiaddr e)))
                           (filter (\<lambda>e. \<not> isl (NewMultiaddrBytes X (pb_Multiaddr e)))
                              (pb_Addresses msg)),
                 Seq = pb_Seq msg\<rparr>,
           None))"
proof (cases "proto_Unmarshal X bs")
  case (Inl err)
  then show ?thesis by (simp add: UnmarshalRecord_present)
next
  case (Inr msg)
  show ?thesis
  proof (cases "ID_UnmarshalBinary X (pb_PeerId msg)")
    case (Inl err)
    with \<open>proto_Unmarshal X bs = Inr msg\<close> show ?thesis
      by (simp add: UnmarshalRecord_present)
  next
    case (Inr ident)
    with \<open>proto_Unmarshal X bs = Inr msg\<close> show ?thesis
      by (simp add: UnmarshalRecord_present addrsFromProtobuf_eq)
  qed
qed

theorem UnmarshalRecord_fails_only_on_structure_witness:
  "proto_Unmarshal sample_externals [5, 1, 7, 2, 9, 9, 0, 1, 8] =
     Inr \<lparr>pb_PeerId = [7],
          pb_Addresses = [\<lparr>pb_Multiaddr = [9, 9]\<rparr>, \<lparr>pb_Multiaddr = []\<rparr>, \<lparr>pb_Multiaddr = [8]\<rparr>],
          pb_Seq = 5\<rparr>
   \<and> ID_UnmarshalBinary sample_externals [7] = Inr [7]
   \<and> UnmarshalRecord sample_externals (Some sample_record) [5, 1, 7, 2, 9, 9, 0, 1, 8] =
       (Some \<lparr>PeerID = [7], Addrs = [[9, 9], [8]], Seq = 5\<rparr>, None)
   \<and> snd (UnmarshalRecord sample_externals (Some sample_record) [5, 3, 7]) \<noteq> None
   \<and> snd (UnmarshalRecord sample_externals (Some sample_record) [5, 0]) \<noteq> None"
  using UnmarshalRecord_fails_only_on_structure
      [of sample_externals sample_record "[5, 1, 7, 2, 9, 9, 0, 1, 8]"]
    UnmarshalRecord_fails_only_on_structure [of sample_externals sample_record "[5, 3, 7]"]
  by (simp add: sample_lenient_decode sample_truncated sample_bad_identity sample_lenient_wire
      sample_identity_bytes)

text \<open>
  C4. For every pair of PeerRecords \<open>r\<close> and \<open>other\<close>, \<open>Equal\<close> returns true if and only if
  they have the same \<open>PeerID\<close>, the same \<open>Seq\<close>, and address sequences of the same length
  whose elements at each index are equal by the addresses' own \<open>Equal\<close>. Against an absent
  \<open>other\<close> it returns whether the receiver is absent too; and when either side is absent,
  it returns true only if both are.
\<close>

theorem Equal_iff:
  "snd (Equal X (Some r) (Some other)) =
     Inr (PeerID r = PeerID other \<and> Seq r = Seq other \<and> length (Addrs r) = length (Addrs other)
          \<and> (\<forall>i<length (Addrs r). Multiaddr_Equal X (Addrs r ! i) (Addrs other ! i)))
   \<and> snd (Equal X ro None) = Inr (ro = None)
   \<and> ((ro = None \<or> oo = None) \<and> snd (Equal X ro oo) = Inr True \<longrightarrow> ro = None \<and> oo = None)"
proof (intro conjI)
  show "snd (Equal X (Some r) (Some other)) =
     Inr (PeerID r = PeerID other \<and> Seq r = Seq other \<and> length (Addrs r) = length (Addrs other)
          \<and> (\<forall>i<length (Addrs r). Multiaddr_Equal X (Addrs r ! i) (Addrs other ! i)))"
    by (auto simp: Equal_def Equal_loop_all_indices)
  show "snd (Equal X ro None) = Inr (ro = None)"
    by (simp add: Equal_def)
  show "(ro = None \<or> oo = None) \<and> snd (Equal X ro oo) = Inr True \<longrightarrow> ro = None \<and> oo = None"
    by (cases ro; cases oo) (simp_all add: Equal_def)
qed

theorem Equal_iff_witness:
  "snd (Equal sample_externals (Some sample_record) (Some sample_record)) = Inr True
   \<and> snd (Equal sample_externals (Some sample_record) (Some sample_swapped)) = Inr False
   \<and> snd (Equal sample_externals (Some sample_record) None) = Inr False
   \<and> snd (Equal sample_externals None None) = Inr True"
  using Equal_iff [of sample_externals sample_record sample_record "Some sample_record" None]
    Equal_iff [of sample_externals sample_record sample_swapped None None]
  by (simp add: sample_Equal_self sample_Equal_swapped sample_Equal_nil nil_Equal_nil)

text \<open>
  C5. For every PeerRecord \<open>r\<close> (present or not) and private key \<open>k\<close>, \<open>MarshalSigned\<close> is
  \<open>Sign\<close> followed by the Envelope's \<open>Marshal\<close>: when \<open>Sign\<close> returns an Envelope the result
  is exactly what \<open>Marshal\<close> returns for it, and when \<open>Sign\<close> fails the result is that
  error and no bytes.
\<close>

theorem MarshalSigned_is_Sign_then_Marshal:
  "(\<forall>env. snd (Sign X r k) = Inr env \<longrightarrow> snd (MarshalSigned X r k) = Envelope_Marshal X env)
   \<and> (\<forall>err. snd (Sign X r k) = Inl err \<longrightarrow> snd (MarshalSigned X r k) = Inl err)"
  by (auto simp: MarshalSigned_def split: sum.splits prod.splits)

theorem MarshalSigned_is_Sign_then_Marshal_witness:
  "snd (Sign sample_externals (Some sample_record) 7) =
     Inr (7, ''libp2p-peer-record'', bytes_of_string ''/libp2p/peer-record'',
          [5, 1, 7, 5, 4, 1, 2, 3, 4, 3, 6, 15, 161])
   \<and> snd (MarshalSigned sample_externals (Some sample_record) 7) =
       Envelope_Marshal sample_externals
         (7, ''libp2p-peer-record'', bytes_of_string ''/libp2p/peer-record'',
          [5, 1, 7, 5, 4, 1, 2, 3, 4, 3, 6, 15, 161])
   \<and> snd (Sign sample_externals (Some sample_record) 9) = Inl ErrPeerIdMismatch
   \<and> snd (MarshalSigned sample_externals (Some sample_record) 9) = Inl ErrPeerIdMismatch"
  using MarshalSigned_is_Sign_then_Marshal [of sample_externals "Some sample_record" 7]
    MarshalSigned_is_Sign_then_Marshal [of sample_externals "Some sample_record" 9]
  by (simp add: sample_signed sample_sign_refused)

text \<open>
  C6. For every record and key, signing builds the Envelope with the fixed domain string
  \<^verbatim>\<open>"libp2p-peer-record"\<close> and the fixed payload type tag \<^verbatim>\<open>"/libp2p/peer-record"\<close>: once the
  key's identity is the record's, \<open>Sign\<close> is \<open>MakeEnvelopeWithRecord\<close> at these two
  literals, and every Envelope that \<open>Sign\<close> returns was sealed from the record's
  serialization under them.
\<close>

theorem Sign_domain_and_payload_type:
  "(IDFromPrivateKey X k = Inr (PeerID r) \<longrightarrow>
      Sign X (Some r) k =
        MakeEnvelopeWithRecord X k ''libp2p-peer-record'' (bytes_of_string ''/libp2p/peer-record'')
          (Some r))
   \<and> (\<forall>env. snd (Sign X (Some r) k) = Inr env \<longrightarrow>
        (\<exists>payload. snd (MarshalRecord X (Some r)) = Inr payload \<and>
           Envelope_seal X k ''libp2p-peer-record'' (bytes_of_string ''/libp2p/peer-record'') payload
             = Inr env))"
  by (auto simp: Sign_def MakeEnvelopeWithRecord_def PeerRecordEnvelopeDomain_def
        PeerRecordEnvelopePayloadType_def split: sum.splits if_splits prod.splits)

theorem Sign_domain_and_payload_type_witness:
  "IDFromPrivateKey sample_externals 7 = Inr (PeerID sample_record)
   \<and> Sign sample_externals (Some sample_record) 7 =
       MakeEnvelopeWithRecord sample_externals 7 ''libp2p-peer-record''
         (bytes_of_string ''/libp2p/peer-record'') (Some sample_record)
   \<and> snd (Sign sample_externals (Some sample_record) 7) =
       Inr (7, ''libp2p-peer-record'', bytes_of_string ''/libp2p/peer-record'',
            [5, 1, 7, 5, 4, 1, 2, 3, 4, 3, 6, 15, 161])"
  using Sign_domain_and_payload_type [of sample_externals 7 sample_record]
  by (simp add: sample_signed sample_key sample_sealed)

text \<open>
  C7. For every input byte sequence (and whatever the external functions do),
  \<open>UnmarshalRecord\<close> on an absent (\<^verbatim>\<open>nil\<close>) receiver returns the \<open>NilReceiver\<close> error; the
  receiver stays absent and nothing is decoded.
\<close>

theorem UnmarshalRecord_nil_receiver:
  "UnmarshalRecord X None bs = (None, Some NilReceiver)"
  by (simp add: UnmarshalRecord_def)

text \<open>
  C8. Initialization registers the PeerRecord kind: whatever the registry held before,
  after \<open>init\<close> the tag \<^verbatim>\<open>"/libp2p/peer-record"\<close> is mapped to a PeerRecord prototype, a
  pointer to a fresh zero-valued record; and decoding payload bytes into that prototype
  yields the PeerRecord they encode whenever they are structurally valid.
\<close>

theorem init_registers_PeerRecord:
  "lookup (init X reg) (bytes_of_string ''/libp2p/peer-record'') =
     Some (PeerRecordPtr (Some \<lparr>PeerID = ID_zero X, Addrs = [], Seq = 0\<rparr>))
   \<and> (\<forall>msg ident.
        proto_Unmarshal X bs = Inr msg \<and> ID_UnmarshalBinary X (pb_PeerId msg) = Inr ident \<longrightarrow>
        UnmarshalRecord X (Some \<lparr>PeerID = ID_zero X, Addrs = [], Seq = 0\<rparr>) bs =
          (Some \<lparr>PeerID = ident, Addrs = addrsFromProtobuf X (pb_Addresses msg), Seq = pb_Seq msg\<rparr>,
           None))"
  by (simp add: lookup_def init_def RegisterPayloadType_def PeerRecordEnvelopePayloadType_def
        UnmarshalRecord_present)

theorem init_registers_PeerRecord_witness:
  "lookup (init sample_externals (Map.empty :: (bytes, bytes, unit) registry))
       (bytes_of_string ''/libp2p/peer-record'') =
     Some (PeerRecordPtr (Some \<lparr>PeerID = [], Addrs = [], Seq = 0\<rparr>))
   \<and> UnmarshalRecord sample_externals (Some \<lparr>PeerID = [], Addrs = [], Seq = 0\<rparr>)
         [5, 1, 7, 2, 9, 9, 0, 1, 8] =
       (Some \<lparr>PeerID = [7], Addrs = [[9, 9], [8]], Seq = 5\<rparr>, None)"
  using init_registers_PeerRecord
      [of sample_externals "Map.empty :: (bytes, bytes, unit) registry" "[5, 1, 7, 2, 9, 9, 0, 1, 8]"]
  by (simp add: sample_lenient_decode sample_zero)

text \<open>
  C9. \<open>MarshalRecord\<close>, \<open>Sign\<close>, \<open>MarshalSigned\<close> and \<open>Equal\<close> leave the receiver as they found
  it, for every receiver and every argument: the record after the call is the record
  before it, so its \<open>PeerID\<close>, \<open>Addrs\<close> and \<open>Seq\<close> are unchanged.
\<close>

theorem read_only_methods_keep_receiver:
  "fst (MarshalRecord X r) = r \<and> fst (Sign X r k) = r \<and> fst (MarshalSigned X r k) = r
   \<and> fst (Equal X r other) = r"
  by (simp add: MarshalRecord_receiver Sign_receiver MarshalSigned_receiver Equal_receiver)

theorem read_only_methods_keep_receiver_witness:
  "fst (MarshalRecord sample_externals (Some sample_record)) = Some sample_record
   \<and> fst (Sign sample_externals (Some sample_record) 7) = Some sample_record
   \<and> fst (MarshalSigned sample_externals (Some sample_record) 7) = Some sample_record
   \<and> fst (Equal sample_externals (Some sample_record) (Some sample_swapped)) = Some sample_record"
  using read_only_methods_keep_receiver
      [of sample_externals "Some sample_record" 7 "Some sample_swapped"]
  by simp

text \<open>
  C10. \<open>UnmarshalRecord\<close> is atomic on failure: for every present receiver and every input
  on which it returns an error, the receiver after the call is the receiver before it.
\<close>

theorem UnmarshalRecord_failure_keeps_receiver:
  assumes failed: "snd (UnmarshalRecord X (Some r) bs) \<noteq> None"
  shows "fst (UnmarshalRecord X (Some r) bs) = Some r"
proof (cases "proto_Unmarshal X bs")
  case (Inl err)
  then show ?thesis by (simp add: UnmarshalRecord_present)
next
  case (Inr msg)
  show ?thesis
  proof (cases "ID_UnmarshalBinary X (pb_PeerId msg)")
    case (Inl err)
    with \<open>proto_Unmarshal X bs = Inr msg\<close> show ?thesis
      by (simp add: UnmarshalRecord_present)
  next
    case (Inr ident)
    with \<open>proto_Unmarshal X bs = Inr msg\<close> failed show ?thesis
      by (simp add: UnmarshalRecord_present)
  qed
qed

theorem UnmarshalRecord_failure_keeps_receiver_witness:
  "snd (UnmarshalRecord sample_externals (Some sample_record) [5, 3, 7]) =
     Some (CalleeError ''proto: unexpected EOF'')
   \<and> fst (UnmarshalRecord sample_externals (Some sample_record) [5, 3, 7]) = Some sample_record
   \<and> snd (UnmarshalRecord sample_externals (Some sample_record) [5, 0]) =
       Some (CalleeError ''empty peer id'')
   \<and> fst (UnmarshalRecord sample_externals (Some sample_record) [5, 0]) = Some sample_record"
  using UnmarshalRecord_failure_keeps_receiver [of sample_externals sample_record "[5, 3, 7]"]
    UnmarshalRecord_failure_keeps_receiver [of sample_externals sample_record "[5, 0]"]
  by (simp add: sample_truncated sample_bad_identity)

end
